theory Spec2Isabelle
  imports Complex_Main
begin

section \<open>Data model of the dispatch layer (humba/core.py)\<close>

text \<open>
  The element type of a numpy array. Only \<open>Float64\<close> and \<open>Float32\<close> are accepted by
  the dispatch functions; the other constructors stand for the remaining numpy scalar types.
\<close>

datatype dtype =
    Bool | Int8 | Int16 | Int32 | Int64 | UInt8 | UInt16 | UInt32 | UInt64
  | Float16 | Float32 | Float64 | Complex64 | Complex128 | Object

text \<open>
  A numpy array: its \<open>shape\<close> tuple, its \<open>dtype\<close> and its elements in row-major order.
  Elements are modelled as real numbers; the rounding of a conversion between precisions is
  the parameter \<open>cast\<close> of \<open>astype\<close>.
\<close>

record ndarray =
  shape :: "nat list"
  dtype :: dtype
  data :: "real list"

text \<open>The exceptions a call can end with; each carries its message.\<close>

datatype py_error =
    AssertionError string
  | TypeError string
  | ValueError string
  | IndexError string

text \<open>The six compiled routines of the module \<open>humba.jits\<close>, by name.\<close>

datatype kernel =
    Hfloat64 | Hfloat32
  | Hfloat64_weighted | Hfloat32_weighted
  | Hfloat64_multiweights | Hfloat32_multiweights

text \<open>
  The module \<open>humba.jits\<close> is imported by core.py and is a parameter of the model: the
  unweighted routines return one array, the weighted and multi-weight routines return a
  pair (counts, errors). A routine may itself raise.
\<close>

type_synonym kernel1 = "ndarray \<Rightarrow> int \<Rightarrow> real \<Rightarrow> real \<Rightarrow> bool \<Rightarrow> py_error + ndarray"
type_synonym kernel2 =
  "ndarray \<Rightarrow> ndarray \<Rightarrow> int \<Rightarrow> real \<Rightarrow> real \<Rightarrow> bool \<Rightarrow> py_error + ndarray \<times> ndarray"

record jits =
  hfloat64 :: kernel1
  hfloat32 :: kernel1
  hfloat64_weighted :: kernel2
  hfloat32_weighted :: kernel2
  hfloat64_multiweights :: kernel2
  hfloat32_multiweights :: kernel2

text \<open>
  One invocation of a routine of \<open>humba.jits\<close>, with the arguments it received. The
  dispatch functions return the list of invocations they made next to their result, so
  that "no kernel was invoked" is the empty list.
\<close>

record kcall =
  kc_func :: kernel
  kc_x :: ndarray
  kc_weights :: "ndarray option"
  kc_bins :: int
  kc_xmin :: real
  kc_xmax :: real
  kc_flow :: bool

section \<open>The numpy operations used by core.py\<close>

text \<open>
  \<open>a.astype(dt)\<close>: a copy of \<open>a\<close> with element type \<open>dt\<close>; the shape is kept and every
  element is converted by \<open>cast (dtype a) dt\<close>.
\<close>

definition astype :: "(dtype \<Rightarrow> dtype \<Rightarrow> real \<Rightarrow> real) \<Rightarrow> ndarray \<Rightarrow> dtype \<Rightarrow> ndarray" where
  "astype cast a dt = a\<lparr>dtype := dt, data := map (cast (dtype a) dt) (data a)\<rparr>"

text \<open>
  \<open>np.linspace(start, stop, num)\<close>: \<open>num\<close> evenly spaced float64 samples over the closed
  interval from \<open>start\<close> to \<open>stop\<close>; the last sample is set to \<open>stop\<close> when there is more
  than one. A negative \<open>num\<close> raises ValueError; its message is kept as the format string, in
  which numpy puts \<open>num\<close> for \<open>%s\<close>.
\<close>

definition linspace :: "real \<Rightarrow> real \<Rightarrow> int \<Rightarrow> py_error + ndarray" where
  "linspace start stop num =
     (if num < 0 then Inl (ValueError ''Number of samples, %s, must be non-negative.'')
      else
        let n = nat num;
            step = (if num > 1 then (stop - start) / real_of_int (num - 1) else stop - start);
            y = map (\<lambda>i. start + real i * step) [0..<n];
            y' = (if num > 1 then y[n - 1 := stop] else y)
        in Inr \<lparr>shape = [n], dtype = Float64, data = y'\<rparr>)"

text \<open>\<open>a.shape[0]\<close>: the outer length; indexing the empty shape tuple raises IndexError.\<close>

definition shape0 :: "ndarray \<Rightarrow> py_error + nat" where
  "shape0 a = (case shape a of [] \<Rightarrow> Inl (IndexError ''tuple index out of range'') | n # _ \<Rightarrow> Inr n)"

section \<open>The dispatch functions\<close>

text \<open>Calling the selected routine \<open>hfunc\<close> (its name and its code), recording the call.\<close>

definition invoke1 ::
  "kernel \<times> kernel1 \<Rightarrow> ndarray \<Rightarrow> int \<Rightarrow> real \<Rightarrow> real \<Rightarrow> bool \<Rightarrow> kcall list \<times> (py_error + ndarray)" where
  "invoke1 hfunc x bins xmin xmax flow =
     ([\<lparr>kc_func = fst hfunc, kc_x = x, kc_weights = None, kc_bins = bins,
        kc_xmin = xmin, kc_xmax = xmax, kc_flow = flow\<rparr>],
      snd hfunc x bins xmin xmax flow)"

definition invoke2 ::
  "kernel \<times> kernel2 \<Rightarrow> ndarray \<Rightarrow> ndarray \<Rightarrow> int \<Rightarrow> real \<Rightarrow> real \<Rightarrow> bool
     \<Rightarrow> kcall list \<times> (py_error + ndarray \<times> ndarray)" where
  "invoke2 hfunc x w bins xmin xmax flow =
     ([\<lparr>kc_func = fst hfunc, kc_x = x, kc_weights = Some w, kc_bins = bins,
        kc_xmin = xmin, kc_xmax = xmax, kc_flow = flow\<rparr>],
      snd hfunc x w bins xmin xmax flow)"

text \<open>
  \<open>histogram(x, bins, range, weights, flow)\<close>, lines 59 to 78 of core.py. The edges are
  built first, then the shape assertion (weighted calls only, assertions enabled), then the
  selection of the routine by \<open>x.dtype\<close>, then the call.
\<close>

definition histogram ::
  "(dtype \<Rightarrow> dtype \<Rightarrow> real \<Rightarrow> real) \<Rightarrow> jits \<Rightarrow> ndarray \<Rightarrow> int \<Rightarrow> real \<times> real \<Rightarrow> ndarray option \<Rightarrow> bool
     \<Rightarrow> kcall list \<times> (py_error + ndarray \<times> ndarray option \<times> ndarray)" where
  "histogram cast J x bins rng weights flow =
     (case linspace (fst rng) (snd rng) (bins + 1) of
        Inl e \<Rightarrow> ([], Inl e)
      | Inr edges \<Rightarrow>
          (case weights of
             Some w \<Rightarrow>
               if shape x \<noteq> shape w
               then ([], Inl (AssertionError ''x and weights must have identical shape''))
               else
                 (case (if dtype x = Float64 then Inr (Hfloat64_weighted, hfloat64_weighted J)
                        else if dtype x = Float32 then Inr (Hfloat32_weighted, hfloat32_weighted J)
                        else Inl (TypeError ''dtype of input must be float32 or float64'')) of
                    Inl e \<Rightarrow> ([], Inl e)
                  | Inr hfunc \<Rightarrow>
                      (case invoke2 hfunc x (astype cast w (dtype x)) bins (fst rng) (snd rng) flow of
                         (tr, Inl e) \<Rightarrow> (tr, Inl e)
                       | (tr, Inr (res, err)) \<Rightarrow> (tr, Inr (res, Some err, edges))))
           | None \<Rightarrow>
               (case (if dtype x = Float64 then Inr (Hfloat64, hfloat64 J)
                      else if dtype x = Float32 then Inr (Hfloat32, hfloat32 J)
                      else Inl (TypeError ''dtype of input must be float32 or float64'')) of
                  Inl e \<Rightarrow> ([], Inl e)
                | Inr hfunc \<Rightarrow>
                    (case invoke1 hfunc x bins (fst rng) (snd rng) flow of
                       (tr, Inl e) \<Rightarrow> (tr, Inl e)
                     | (tr, Inr res) \<Rightarrow> (tr, Inr (res, None, edges))))))"

text \<open>
  \<open>mwv_histogram(x, weights, bins, range, flow)\<close>, lines 123 to 132 of core.py: edges,
  the assertion on the outer lengths, the selection by \<open>weights.dtype\<close>, the call.
\<close>

definition mwv_histogram ::
  "(dtype \<Rightarrow> dtype \<Rightarrow> real \<Rightarrow> real) \<Rightarrow> jits \<Rightarrow> ndarray \<Rightarrow> ndarray \<Rightarrow> int \<Rightarrow> real \<times> real \<Rightarrow> bool
     \<Rightarrow> kcall list \<times> (py_error + ndarray \<times> ndarray \<times> ndarray)" where
  "mwv_histogram cast J x weights bins rng flow =
     (case linspace (fst rng) (snd rng) (bins + 1) of
        Inl e \<Rightarrow> ([], Inl e)
      | Inr edges \<Rightarrow>
          (case shape0 x of
             Inl e \<Rightarrow> ([], Inl e)
           | Inr n \<Rightarrow>
               (case shape0 weights of
                  Inl e \<Rightarrow> ([], Inl e)
                | Inr m \<Rightarrow>
                    if n \<noteq> m
                    then ([], Inl (AssertionError ''weights shape is not compatible with x''))
                    else
                      (case (if dtype weights = Float64
                             then Inr (Hfloat64_multiweights, hfloat64_multiweights J)
                             else if dtype weights = Float32
                             then Inr (Hfloat32_multiweights, hfloat32_multiweights J)
                             else Inl (TypeError ''dtype of input must be float32 or float64'')) of
                         Inl e \<Rightarrow> ([], Inl e)
                       | Inr hfunc \<Rightarrow>
                           (case invoke2 hfunc (astype cast x (dtype weights)) weights bins
                                   (fst rng) (snd rng) flow of
                              (tr, Inl e) \<Rightarrow> (tr, Inl e)
                            | (tr, Inr (res, err)) \<Rightarrow> (tr, Inr (res, err, edges)))))))"

section \<open>The binning kernel\<close>

text \<open>
  Modelled from the spec: the binning kernel, that is the module \<open>humba.jits\<close> with its
  routines \<open>_hfloat64\<close>, \<open>_hfloat32\<close>, \<open>_hfloat64_weighted\<close>, \<open>_hfloat32_weighted\<close>,
  \<open>_hfloat64_multiweights\<close> and \<open>_hfloat32_multiweights\<close>. core.py imports and calls it, its
  code is not among the sources. The definitions of this section follow sections 3 and 4 of the
  specification, over exact real arithmetic. First the width of a bin,
  \<open>bin_width = (hi - lo) / bins\<close>.
\<close>

definition bin_width :: "nat \<Rightarrow> real \<Rightarrow> real \<Rightarrow> real" where
  "bin_width bins lo hi = (hi - lo) / real bins"

text \<open>
  Modelled from the spec: the index computation shared by the three kernels (sections 4.1
  to 4.3; the kernels are not among the sources), \<open>idx = floor((x - lo) / bin_width)\<close>.
\<close>

definition bin_idx :: "real \<Rightarrow> nat \<Rightarrow> real \<Rightarrow> real \<Rightarrow> int" where
  "bin_idx x bins lo hi = \<lfloor>(x - lo) / bin_width bins lo hi\<rfloor>"

text \<open>
  Modelled from the spec: the fate of a sample of index \<open>idx\<close> (section 4.1 of the
  specification; the kernel is not among the sources). In range it goes to bin \<open>idx\<close>; below
  the range it goes to bin 0 when \<open>flow\<close> is set and is dropped otherwise; from \<open>bins\<close> on it
  goes to bin \<open>bins - 1\<close> when \<open>flow\<close> is set and is dropped otherwise.
\<close>

definition resolve_bin :: "int \<Rightarrow> nat \<Rightarrow> bool \<Rightarrow> nat option" where
  "resolve_bin idx bins flow =
     (if 0 \<le> idx \<and> idx < int bins then Some (nat idx)
      else if idx < 0 then (if flow then Some 0 else None)
      else (if flow then Some (bins - 1) else None))"

text \<open>
  Modelled from the spec: one step of the unweighted kernel of section 4.1 (not among the
  sources): a resolved sample adds 1 to its bin, a dropped one changes nothing.
\<close>

definition count_step :: "nat \<Rightarrow> real \<Rightarrow> real \<Rightarrow> bool \<Rightarrow> real \<Rightarrow> real list \<Rightarrow> real list" where
  "count_step bins lo hi flow x count =
     (case resolve_bin (bin_idx x bins lo hi) bins flow of
        None \<Rightarrow> count
      | Some i \<Rightarrow> count[i := count ! i + 1])"

text \<open>
  Modelled from the spec: the unweighted kernel \<open>bin_counts\<close> of section 4.1 (not among the
  sources), the pass of \<open>count_step\<close> over the samples, started from \<open>bins\<close> zeros.
\<close>

definition bin_counts :: "real list \<Rightarrow> nat \<Rightarrow> real \<Rightarrow> real \<Rightarrow> bool \<Rightarrow> real list" where
  "bin_counts samples bins lo hi flow =
     fold (count_step bins lo hi flow) samples (replicate bins 0)"

text \<open>
  Modelled from the spec: one step of the single-weight kernel of section 4.2 (not among
  the sources): a resolved sample adds its own weight to \<open>counts\<close> and the square of its
  weight to \<open>sumsq\<close> at its bin.
\<close>

definition weighted_step ::
  "nat \<Rightarrow> real \<Rightarrow> real \<Rightarrow> bool \<Rightarrow> real \<times> real \<Rightarrow> real list \<times> real list \<Rightarrow> real list \<times> real list" where
  "weighted_step bins lo hi flow xw acc =
     (case resolve_bin (bin_idx (fst xw) bins lo hi) bins flow of
        None \<Rightarrow> acc
      | Some i \<Rightarrow>
          ((fst acc)[i := fst acc ! i + snd xw],
           (snd acc)[i := snd acc ! i + snd xw * snd xw]))"

text \<open>
  Modelled from the spec: the single-weight kernel \<open>bin_weighted\<close> of section 4.2 (not among
  the sources): the pass of \<open>weighted_step\<close> over the samples paired with their weights,
  then \<open>errors[idx] = sqrt(sumsq[idx])\<close>. The kernel trusts that samples and weights have
  equal length.
\<close>

definition bin_weighted ::
  "real list \<Rightarrow> real list \<Rightarrow> nat \<Rightarrow> real \<Rightarrow> real \<Rightarrow> bool \<Rightarrow> real list \<times> real list" where
  "bin_weighted samples weights bins lo hi flow =
     (let acc = fold (weighted_step bins lo hi flow) (zip samples weights)
                  (replicate bins 0, replicate bins 0)
      in (fst acc, map sqrt (snd acc)))"

text \<open>
  Modelled from the spec: the loop over the columns in the multi-weight kernel of section
  4.3 (not among the sources): for every column \<open>j\<close> below M,
  \<open>counts[idx][j] += weights[row][j]\<close>.
\<close>

definition add_row :: "nat \<Rightarrow> real list \<Rightarrow> real list \<Rightarrow> real list" where
  "add_row M row acc = fold (\<lambda>j a. a[j := a ! j + row ! j]) [0..<M] acc"

text \<open>
  Modelled from the spec: the same loop for the squares (section 4.3; not among the
  sources): for every column \<open>j\<close> below M, \<open>sumsq[idx][j] += weights[row][j]^2\<close>.
\<close>

definition add_row_sq :: "nat \<Rightarrow> real list \<Rightarrow> real list \<Rightarrow> real list" where
  "add_row_sq M row acc = fold (\<lambda>j a. a[j := a ! j + row ! j * row ! j]) [0..<M] acc"

text \<open>
  Modelled from the spec: one step of the multi-weight kernel of section 4.3 (not among the
  sources): the index of the sample is computed once, and the row of weights of a resolved
  sample is added to row \<open>idx\<close> of \<open>counts\<close> and, squared, to row \<open>idx\<close> of \<open>sumsq\<close>.
\<close>

definition multi_step ::
  "nat \<Rightarrow> nat \<Rightarrow> real \<Rightarrow> real \<Rightarrow> bool \<Rightarrow> real \<times> real list
     \<Rightarrow> real list list \<times> real list list \<Rightarrow> real list list \<times> real list list" where
  "multi_step M bins lo hi flow xr acc =
     (case resolve_bin (bin_idx (fst xr) bins lo hi) bins flow of
        None \<Rightarrow> acc
      | Some i \<Rightarrow>
          ((fst acc)[i := add_row M (snd xr) (fst acc ! i)],
           (snd acc)[i := add_row_sq M (snd xr) (snd acc ! i)]))"

text \<open>
  Modelled from the spec: the multi-weight kernel \<open>bin_multiweighted\<close> of section 4.3 (not
  among the sources). The weight matrix of shape (N, M) is given by M and the list of its N
  rows; the outputs are \<open>bins\<close> rows of M entries, and \<open>errors[idx][j] = sqrt(sumsq[idx][j])\<close>.
\<close>

definition bin_multiweighted ::
  "real list \<Rightarrow> nat \<Rightarrow> real list list \<Rightarrow> nat \<Rightarrow> real \<Rightarrow> real \<Rightarrow> bool
     \<Rightarrow> real list list \<times> real list list" where
  "bin_multiweighted samples M weights bins lo hi flow =
     (let acc = fold (multi_step M bins lo hi flow) (zip samples weights)
                  (replicate bins (replicate M 0), replicate bins (replicate M 0))
      in (fst acc, map (map sqrt) (snd acc)))"

text \<open>Column \<open>j\<close> of a matrix given by its rows.\<close>

definition column :: "nat \<Rightarrow> real list list \<Rightarrow> real list" where
  "column j rows = map (\<lambda>r. r ! j) rows"

text \<open>
  The rows of an \<open>n\<close> by \<open>m\<close> matrix stored in row-major order.
\<close>

definition matrix_rows :: "nat \<Rightarrow> nat \<Rightarrow> real list \<Rightarrow> real list list" where
  "matrix_rows n m xs = map (\<lambda>r. take m (drop (r * m) xs)) [0..<n]"

text \<open>
  Modelled from the spec: the unweighted routines \<open>_hfloat64\<close> and \<open>_hfloat32\<close> of
  \<open>humba.jits\<close> as functions on arrays (their code is not among the sources), following the
  call contract of section 6 of the specification: \<open>bins\<close> counts in the precision \<open>dt\<close> the
  routine is specialised for.
\<close>

definition spec_unweighted :: "dtype \<Rightarrow> kernel1" where
  "spec_unweighted dt x bins xmin xmax flow =
     Inr \<lparr>shape = [nat bins], dtype = dt,
          data = bin_counts (data x) (nat bins) xmin xmax flow\<rparr>"

text \<open>
  Modelled from the spec: the weighted routines \<open>_hfloat64_weighted\<close> and
  \<open>_hfloat32_weighted\<close> of \<open>humba.jits\<close> as functions on arrays (not among the sources),
  following section 6 of the specification: counts and errors of \<open>bins\<close> entries each.
\<close>

definition spec_weighted :: "dtype \<Rightarrow> kernel2" where
  "spec_weighted dt x w bins xmin xmax flow =
     (let r = bin_weighted (data x) (data w) (nat bins) xmin xmax flow
      in Inr (\<lparr>shape = [nat bins], dtype = dt, data = fst r\<rparr>,
              \<lparr>shape = [nat bins], dtype = dt, data = snd r\<rparr>))"

text \<open>
  Modelled from the spec: the multi-weight routines \<open>_hfloat64_multiweights\<close> and
  \<open>_hfloat32_multiweights\<close> of \<open>humba.jits\<close> as functions on arrays (not among the sources),
  following section 6 of the specification: for a weights array of shape (n, m), counts and
  errors of shape (bins, m). The contract gives no result for a weights array that is not
  two-dimensional; reading its second dimension fails.
\<close>

definition spec_multiweights :: "dtype \<Rightarrow> kernel2" where
  "spec_multiweights dt x w bins xmin xmax flow =
     (case shape w of
        [n, m] \<Rightarrow>
          (let r = bin_multiweighted (data x) m (matrix_rows n m (data w)) (nat bins) xmin xmax flow
           in Inr (\<lparr>shape = [nat bins, m], dtype = dt, data = concat (fst r)\<rparr>,
                   \<lparr>shape = [nat bins, m], dtype = dt, data = concat (snd r)\<rparr>))
      | _ \<Rightarrow> Inl (IndexError ''tuple index out of range''))"

text \<open>
  Modelled from the spec: the module \<open>humba.jits\<close> (not among the sources), its six routines
  as specified, each in its precision.
\<close>

definition jits_spec :: jits where
  "jits_spec =
     \<lparr>hfloat64 = spec_unweighted Float64,
      hfloat32 = spec_unweighted Float32,
      hfloat64_weighted = spec_weighted Float64,
      hfloat32_weighted = spec_weighted Float32,
      hfloat64_multiweights = spec_multiweights Float64,
      hfloat32_multiweights = spec_multiweights Float32\<rparr>"

text \<open>
  A conversion that changes no value: the conversion of values that are representable in
  both element types, as all values of the examples below are.
\<close>

definition exact_cast :: "dtype \<Rightarrow> dtype \<Rightarrow> real \<Rightarrow> real" where
  "exact_cast src dst v = v"

section \<open>Predicates used in the statements\<close>

text \<open>
  \<open>n + 1\<close> coordinates evenly spaced from \<open>lo\<close> to \<open>hi\<close>: the first is \<open>lo\<close>, the last is
  \<open>hi\<close>, and neighbours are \<open>(hi - lo) / n\<close> apart.
\<close>

definition evenly_spaced :: "real \<Rightarrow> real \<Rightarrow> nat \<Rightarrow> real list \<Rightarrow> bool" where
  "evenly_spaced lo hi n xs =
     (xs ! 0 = lo \<and> xs ! n = hi \<and> (\<forall>i<n. xs ! Suc i - xs ! i = (hi - lo) / real n))"

text \<open>All rows of a matrix have \<open>M\<close> entries.\<close>

definition rows_wide :: "nat \<Rightarrow> real list list \<Rightarrow> bool" where
  "rows_wide M rs = (\<forall>r \<in> set rs. length r = M)"

section \<open>Example inputs\<close>

text \<open>
  Four samples in the range from 0 to 4, as float64, float32 and int64 arrays; weights for
  them (of the same shape, one entry short, and as a column of shape (4, 1)); weight matrices
  with two columns (four rows, three rows, and of an integer type); and the edges of two
  bins over the range from 0 to 4.
\<close>

abbreviation ex_x :: ndarray where
  "ex_x \<equiv> \<lparr>shape = [4], dtype = Float64, data = [1, 1, 3, 3]\<rparr>"

abbreviation ex_x32 :: ndarray where
  "ex_x32 \<equiv> \<lparr>shape = [4], dtype = Float32, data = [1, 1, 3, 3]\<rparr>"

abbreviation ex_x_int :: ndarray where
  "ex_x_int \<equiv> \<lparr>shape = [4], dtype = Int64, data = [1, 1, 3, 3]\<rparr>"

abbreviation ex_w :: ndarray where
  "ex_w \<equiv> \<lparr>shape = [4], dtype = Float32, data = [2, 3, 5, 1]\<rparr>"

abbreviation ex_w_short :: ndarray where
  "ex_w_short \<equiv> \<lparr>shape = [3], dtype = Float32, data = [2, 3, 5]\<rparr>"

abbreviation ex_w_column :: ndarray where
  "ex_w_column \<equiv> \<lparr>shape = [4, 1], dtype = Float32, data = [2, 3, 5, 1]\<rparr>"

abbreviation ex_wm :: ndarray where
  "ex_wm \<equiv> \<lparr>shape = [4, 2], dtype = Float32, data = [2, 10, 3, 20, 5, 30, 1, 10]\<rparr>"

abbreviation ex_wm_short :: ndarray where
  "ex_wm_short \<equiv> \<lparr>shape = [3, 2], dtype = Float32, data = [2, 10, 3, 20, 5, 30]\<rparr>"

abbreviation ex_wm_int :: ndarray where
  "ex_wm_int \<equiv> \<lparr>shape = [4, 2], dtype = Int64, data = [2, 10, 3, 20, 5, 30, 1, 10]\<rparr>"

abbreviation ex_wm_int_short :: ndarray where
  "ex_wm_int_short \<equiv> \<lparr>shape = [3, 2], dtype = Int64, data = [2, 10, 3, 20, 5, 30]\<rparr>"

abbreviation ex_edges :: ndarray where
  "ex_edges \<equiv> \<lparr>shape = [3], dtype = Float64, data = [0, 2, 4]\<rparr>"

section \<open>Properties of the binning kernel\<close>

subsection \<open>Samples are never dropped under flow\<close>

lemma sum_list_update_add:
  fixes c :: "real list"
  shows "i < length c \<Longrightarrow> sum_list (c[i := c ! i + v]) = sum_list c + v"
proof (induction c arbitrary: i)
  case Nil
  then show ?case by simp
next
  case (Cons a c)
  then show ?case by (cases i) simp_all
qed

lemma resolve_bin_flow_some:
  assumes "1 \<le> bins"
  shows "\<exists>i<bins. resolve_bin idx bins True = Some i"
  using assms by (auto simp: resolve_bin_def)

lemma length_count_step [simp]: "length (count_step bins lo hi flow x c) = length c"
  by (simp add: count_step_def split: option.split)

lemma sum_count_step_flow:
  assumes "1 \<le> bins" "length c = bins"
  shows "sum_list (count_step bins lo hi True x c) = sum_list c + 1"
proof -
  obtain i where "i < bins" "resolve_bin (bin_idx x bins lo hi) bins True = Some i"
    using resolve_bin_flow_some [OF assms(1)] by blast
  then show ?thesis
    using assms(2) by (simp add: count_step_def sum_list_update_add)
qed

lemma sum_fold_count_step_flow:
  assumes "1 \<le> bins"
  shows "length c = bins \<Longrightarrow>
         sum_list (fold (count_step bins lo hi True) xs c) = sum_list c + real (length xs)"
proof (induction xs arbitrary: c)
  case Nil
  then show ?case by simp
next
  case (Cons x xs)
  have "length (count_step bins lo hi True x c) = bins"
    using Cons.prems by simp
  then show ?case
    using Cons.IH [of "count_step bins lo hi True x c"] sum_count_step_flow [OF assms Cons.prems]
    by simp
qed

text \<open>
  Claim C7. With \<open>flow\<close> set, the unweighted counts of every sample array sum to the
  number of samples, for every bin specification with at least one bin: no sample is dropped.
\<close>

theorem flow_counts_every_sample:
  assumes "1 \<le> bins"
  shows "sum_list (bin_counts samples bins lo hi True) = real (length samples)"
  using sum_fold_count_step_flow [OF assms, of "replicate bins 0" lo hi samples]
  by (simp add: bin_counts_def sum_list_replicate)

theorem flow_counts_every_sample_witness:
  "(1::nat) \<le> 10 \<and> sum_list (bin_counts [-1, 0, 5, 9.9, 10, 11] 10 0 10 True) = real (length [-1, 0, 5, 9.9, 10, 11 :: real])"
  using flow_counts_every_sample [of 10 "[-1, 0, 5, 9.9, 10, 11]" 0 10] by simp

subsection \<open>Samples on the boundary of the range\<close>

lemma bin_idx_lo: "bin_idx lo bins lo hi = 0"
  by (simp add: bin_idx_def)

lemma bin_idx_hi:
  assumes "1 \<le> bins" "lo < hi"
  shows "bin_idx hi bins lo hi = int bins"
  using assms by (simp add: bin_idx_def bin_width_def)

lemma bin_counts_snoc:
  "bin_counts (xs @ [x]) bins lo hi flow = count_step bins lo hi flow x (bin_counts xs bins lo hi flow)"
  by (simp add: bin_counts_def)

text \<open>
  Claim C6. For a range \<open>lo < hi\<close> and at least one bin: a sample equal to \<open>lo\<close> has
  index 0 and is counted in bin 0, with and without \<open>flow\<close>. A sample equal to \<open>hi\<close> has
  index \<open>bins\<close>, which is outside the in-range indices: it is overflow, added to bin
  \<open>bins - 1\<close> when \<open>flow\<close> is set and leaving the counts unchanged when it is not.
\<close>

theorem boundary_samples:
  assumes "1 \<le> bins" "lo < hi"
  shows "bin_idx lo bins lo hi = 0 \<and> resolve_bin (bin_idx lo bins lo hi) bins flow = Some 0
       \<and> bin_counts (xs @ [lo]) bins lo hi flow
           = (bin_counts xs bins lo hi flow)[0 := bin_counts xs bins lo hi flow ! 0 + 1]
       \<and> bin_idx hi bins lo hi = int bins
       \<and> resolve_bin (bin_idx hi bins lo hi) bins flow = (if flow then Some (bins - 1) else None)
       \<and> bin_counts (xs @ [hi]) bins lo hi True
           = (bin_counts xs bins lo hi True)[bins - 1 := bin_counts xs bins lo hi True ! (bins - 1) + 1]
       \<and> bin_counts (xs @ [hi]) bins lo hi False = bin_counts xs bins lo hi False"
  using assms
  by (simp add: bin_idx_lo bin_idx_hi bin_counts_snoc count_step_def resolve_bin_def)

theorem boundary_samples_witness:
  "(1::nat) \<le> 10 \<and> (0::real) < 10
   \<and> bin_counts ([5] @ [0]) 10 0 10 False = [1, 0, 0, 0, 0, 1, 0, 0, 0, 0]
   \<and> bin_idx 10 10 0 10 = 10
   \<and> bin_counts ([5] @ [10]) 10 0 10 False = [0, 0, 0, 0, 0, 1, 0, 0, 0, 0]
   \<and> bin_counts ([5] @ [10]) 10 0 10 True = [0, 0, 0, 0, 0, 1, 0, 0, 0, 1]"
  using boundary_samples [of 10 0 10 False "[5]"] boundary_samples [of 10 0 10 True "[5]"]
  by (simp add: bin_counts_def count_step_def resolve_bin_def bin_idx_def bin_width_def
      numeral_eq_Suc)

subsection \<open>The multi-weight kernel column by column\<close>

lemma fold_upd_length [simp]:
  "length (fold (\<lambda>j a. a[j := a ! j + f j]) js acc) = length (acc :: real list)"
  by (induction js arbitrary: acc) simp_all

lemma fold_upd_nth:
  fixes acc :: "real list"
  assumes "j < length acc"
  shows "fold (\<lambda>j a. a[j := a ! j + f j]) [0..<M] acc ! j = (if j < M then acc ! j + f j else acc ! j)"
  using assms
proof (induction M)
  case 0
  then show ?case by simp
next
  case (Suc M)
  then show ?case by (cases "j = M") (simp_all add: nth_list_update less_Suc_eq)
qed

lemma length_add_row [simp]: "length (add_row M row acc) = length acc"
  by (simp add: add_row_def)

lemma length_add_row_sq [simp]: "length (add_row_sq M row acc) = length acc"
  by (simp add: add_row_sq_def)

lemma add_row_nth: "j < M \<Longrightarrow> j < length acc \<Longrightarrow> add_row M row acc ! j = acc ! j + row ! j"
  by (simp add: add_row_def fold_upd_nth)

lemma add_row_sq_nth:
  "j < M \<Longrightarrow> j < length acc \<Longrightarrow> add_row_sq M row acc ! j = acc ! j + row ! j * row ! j"
  by (simp add: add_row_sq_def fold_upd_nth)

lemma rows_wide_update:
  "rows_wide M rs \<Longrightarrow> length r = M \<Longrightarrow> rows_wide M (rs[i := r])"
  unfolding rows_wide_def by (metis insertE set_update_subset_insert subsetD)

lemma rows_wide_nth: "rows_wide M rs \<Longrightarrow> i < length rs \<Longrightarrow> length (rs ! i) = M"
  by (simp add: rows_wide_def)

lemma column_update_add_row:
  assumes "rows_wide M cs" "j < M"
  shows "column j (cs[i := add_row M row (cs ! i)]) = (column j cs)[i := column j cs ! i + row ! j]"
proof (cases "i < length cs")
  case True
  then have "length (cs ! i) = M" using assms(1) by (rule rows_wide_nth [rotated])
  then show ?thesis
    using True assms(2) by (simp add: column_def map_update add_row_nth)
next
  case False
  then show ?thesis by (simp add: column_def list_update_beyond)
qed

lemma column_update_add_row_sq:
  assumes "rows_wide M cs" "j < M"
  shows "column j (cs[i := add_row_sq M row (cs ! i)])
           = (column j cs)[i := column j cs ! i + row ! j * row ! j]"
proof (cases "i < length cs")
  case True
  then have "length (cs ! i) = M" using assms(1) by (rule rows_wide_nth [rotated])
  then show ?thesis
    using True assms(2) by (simp add: column_def map_update add_row_sq_nth)
next
  case False
  then show ?thesis by (simp add: column_def list_update_beyond)
qed

lemma multi_step_wide:
  assumes "rows_wide M (fst acc)" "rows_wide M (snd acc)"
  shows "rows_wide M (fst (multi_step M bins lo hi flow xr acc))
       \<and> rows_wide M (snd (multi_step M bins lo hi flow xr acc))"
proof (cases "resolve_bin (bin_idx (fst xr) bins lo hi) bins flow")
  case None
  then show ?thesis using assms by (simp add: multi_step_def)
next
  case (Some i)
  have "rows_wide M ((fst acc)[i := add_row M (snd xr) (fst acc ! i)])"
    using assms(1)
    by (cases "i < length (fst acc)") (simp_all add: rows_wide_update rows_wide_nth list_update_beyond)
  moreover have "rows_wide M ((snd acc)[i := add_row_sq M (snd xr) (snd acc ! i)])"
    using assms(2)
    by (cases "i < length (snd acc)") (simp_all add: rows_wide_update rows_wide_nth list_update_beyond)
  ultimately show ?thesis using Some by (simp add: multi_step_def)
qed

lemma multi_step_column:
  assumes "rows_wide M (fst acc)" "rows_wide M (snd acc)" "j < M"
  shows "(column j (fst (multi_step M bins lo hi flow xr acc)),
          column j (snd (multi_step M bins lo hi flow xr acc)))
       = weighted_step bins lo hi flow (fst xr, snd xr ! j) (column j (fst acc), column j (snd acc))"
  using assms
  by (simp add: multi_step_def weighted_step_def column_update_add_row column_update_add_row_sq
      split: option.split)

lemma fold_multi_step:
  assumes "j < M"
  shows "rows_wide M (fst acc) \<Longrightarrow> rows_wide M (snd acc) \<Longrightarrow>
         rows_wide M (fst (fold (multi_step M bins lo hi flow) xrs acc))
       \<and> rows_wide M (snd (fold (multi_step M bins lo hi flow) xrs acc))
       \<and> (column j (fst (fold (multi_step M bins lo hi flow) xrs acc)),
          column j (snd (fold (multi_step M bins lo hi flow) xrs acc)))
         = fold (weighted_step bins lo hi flow) (map (\<lambda>xr. (fst xr, snd xr ! j)) xrs)
             (column j (fst acc), column j (snd acc))"
proof (induction xrs arbitrary: acc)
  case Nil
  then show ?case by simp
next
  case (Cons xr xrs)
  let ?a = "multi_step M bins lo hi flow xr acc"
  have w: "rows_wide M (fst ?a)" "rows_wide M (snd ?a)"
    using multi_step_wide [OF Cons.prems] by simp_all
  show ?case
    using Cons.IH [OF w] multi_step_column [OF Cons.prems assms, of bins lo hi flow xr]
    by simp
qed

lemma zip_column: "zip xs (column j W) = map (\<lambda>xr. (fst xr, snd xr ! j)) (zip xs W)"
  by (simp add: column_def zip_map2 case_prod_beta)

lemma column_map_sqrt:
  assumes "rows_wide M ss" "j < M"
  shows "column j (map (map sqrt) ss) = map sqrt (column j ss)"
  using assms by (simp add: column_def rows_wide_def)

text \<open>
  Claim C8. For every column \<open>j\<close> below M, column \<open>j\<close> of the counts and of the errors of
  the multi-weight kernel are the counts and the errors of the single-weight kernel run on
  the same samples with column \<open>j\<close> of the weight matrix, for every sample array, bin
  specification and flow flag.
\<close>

theorem multiweight_column_is_single_weight:
  assumes "j < M"
  shows "column j (fst (bin_multiweighted samples M weights bins lo hi flow))
           = fst (bin_weighted samples (column j weights) bins lo hi flow)
       \<and> column j (snd (bin_multiweighted samples M weights bins lo hi flow))
           = snd (bin_weighted samples (column j weights) bins lo hi flow)"
proof -
  let ?init = "(replicate bins (replicate M (0::real)), replicate bins (replicate M (0::real)))"
  let ?acc = "fold (multi_step M bins lo hi flow) (zip samples weights) ?init"
  have w0: "rows_wide M (fst ?init)" "rows_wide M (snd ?init)"
    by (simp_all add: rows_wide_def)
  have c0: "column j (replicate bins (replicate M (0::real))) = replicate bins 0"
    using assms by (simp add: column_def)
  note F = fold_multi_step [OF assms w0, of bins lo hi flow "zip samples weights"]
  have wide: "rows_wide M (snd ?acc)" using F by simp
  have cols: "(column j (fst ?acc), column j (snd ?acc))
      = fold (weighted_step bins lo hi flow) (zip samples (column j weights))
          (replicate bins 0, replicate bins 0)"
    using F by (simp add: zip_column c0)
  have "column j (fst ?acc) = fst (fold (weighted_step bins lo hi flow) (zip samples (column j weights))
          (replicate bins 0, replicate bins 0))"
    and "column j (snd ?acc) = snd (fold (weighted_step bins lo hi flow) (zip samples (column j weights))
          (replicate bins 0, replicate bins 0))"
    using cols by (metis fst_conv, metis snd_conv)
  then show ?thesis
    using column_map_sqrt [OF wide assms]
    by (simp add: bin_multiweighted_def bin_weighted_def Let_def)
qed

theorem multiweight_column_is_single_weight_witness:
  "(1::nat) < 2
   \<and> column 1 (fst (bin_multiweighted [1, 1] 2 [[2, 10], [3, 20]] 1 0 2 False)) = [30]
   \<and> fst (bin_weighted [1, 1] [10, 20] 1 0 2 False) = [30]
   \<and> column 1 (snd (bin_multiweighted [1, 1] 2 [[2, 10], [3, 20]] 1 0 2 False)) = [sqrt 500]
   \<and> snd (bin_weighted [1, 1] [10, 20] 1 0 2 False) = [sqrt 500]"
  using multiweight_column_is_single_weight [of 1 2 "[1, 1]" "[[2, 10], [3, 20]]" 1 0 2 False]
  by (simp add: column_def bin_weighted_def weighted_step_def resolve_bin_def bin_idx_def bin_width_def)

section \<open>Properties of the dispatch functions\<close>

subsection \<open>The numpy operations\<close>

lemma dtype_astype [simp]: "dtype (astype cast a dt) = dt"
  by (simp add: astype_def)

lemma shape_astype [simp]: "shape (astype cast a dt) = shape a"
  by (simp add: astype_def)

lemma linspace_Inr:
  "0 \<le> num \<Longrightarrow> \<exists>e. linspace lo hi num = Inr e"
  by (simp add: linspace_def Let_def)

lemma edges_exist:
  assumes "\<not> bins + 1 < 0"
  shows "\<exists>e. linspace lo hi (bins + 1) = Inr e"
  using assms linspace_Inr [of "bins + 1" lo hi] by simp

lemma linspace_length:
  assumes "linspace lo hi num = Inr e"
  shows "int (length (data e)) = num \<and> shape e = [length (data e)] \<and> dtype e = Float64"
  using assms by (auto simp: linspace_def Let_def split: if_splits)

lemma linspace_spaced:
  assumes "linspace lo hi (int n + 1) = Inr e" "1 \<le> n"
  shows "evenly_spaced lo hi n (data e)"
proof -
  let ?step = "(hi - lo) / real n"
  let ?y = "map (\<lambda>i. lo + real i * ?step) [0..<Suc n]"
  have d: "data e = ?y[n := hi]"
    using assms by (auto simp: linspace_def Let_def nat_add_distrib split: if_splits)
  have last: "lo + real n * ?step = hi"
    using assms(2) by simp
  have nth: "data e ! i = lo + real i * ?step" if "i \<le> n" for i
  proof (cases "i = n")
    case True
    then show ?thesis using last by (simp add: d)
  next
    case False
    then have "i < n" using that by simp
    then show ?thesis unfolding d by (simp add: nth_list_update del: upt_Suc)
  qed
  have "data e ! Suc i - data e ! i = ?step" if "i < n" for i
    using nth [of i] nth [of "Suc i"] that by (simp add: field_simps)
  then show ?thesis
    using nth [of 0] nth [of n] last by (simp add: evenly_spaced_def)
qed

lemma edges_of_linspace:
  assumes "linspace lo hi (bins + 1) = Inr edges"
  shows "int (length (data edges)) = bins + 1 \<and> shape edges = [length (data edges)]
       \<and> (1 \<le> bins \<longrightarrow> evenly_spaced lo hi (nat bins) (data edges))"
proof -
  have "evenly_spaced lo hi (nat bins) (data edges)" if "1 \<le> bins"
  proof -
    have "int (nat bins) + 1 = bins + 1" "1 \<le> nat bins" using that by simp_all
    then show ?thesis using linspace_spaced [of lo hi "nat bins" edges] assms by simp
  qed
  then show ?thesis using linspace_length [OF assms] by simp
qed

subsection \<open>The outcome of a call, case by case\<close>

lemma histogram_no_edges:
  assumes "bins + 1 < 0"
  shows "histogram cast J x bins rng weights flow
           = ([], Inl (ValueError ''Number of samples, %s, must be non-negative.''))"
  using assms by (simp add: histogram_def linspace_def)

lemma mwv_histogram_no_edges:
  assumes "bins + 1 < 0"
  shows "mwv_histogram cast J x w bins rng flow
           = ([], Inl (ValueError ''Number of samples, %s, must be non-negative.''))"
  using assms by (simp add: mwv_histogram_def linspace_def)

lemma fst_histogram_weighted:
  assumes "linspace (fst rng) (snd rng) (bins + 1) = Inr e"
  shows "fst (histogram cast J x bins rng (Some w) flow)
           = (if shape x = shape w \<and> (dtype x = Float64 \<or> dtype x = Float32)
              then [\<lparr>kc_func = (if dtype x = Float64 then Hfloat64_weighted else Hfloat32_weighted),
                     kc_x = x, kc_weights = Some (astype cast w (dtype x)), kc_bins = bins,
                     kc_xmin = fst rng, kc_xmax = snd rng, kc_flow = flow\<rparr>]
              else [])"
  using assms
  by (cases "shape x = shape w"; cases "dtype x = Float64"; cases "dtype x = Float32")
     (simp_all add: histogram_def invoke2_def split: sum.split prod.split)

lemma snd_histogram_weighted:
  assumes "linspace (fst rng) (snd rng) (bins + 1) = Inr e"
  shows "snd (histogram cast J x bins rng (Some w) flow)
           = (if shape x \<noteq> shape w
              then Inl (AssertionError ''x and weights must have identical shape'')
              else if dtype x = Float64 \<or> dtype x = Float32
              then (case (if dtype x = Float64 then hfloat64_weighted J else hfloat32_weighted J)
                           x (astype cast w (dtype x)) bins (fst rng) (snd rng) flow of
                      Inl er \<Rightarrow> Inl er
                    | Inr r \<Rightarrow> Inr (fst r, Some (snd r), e))
              else Inl (TypeError ''dtype of input must be float32 or float64''))"
  using assms
  by (cases "shape x = shape w"; cases "dtype x = Float64"; cases "dtype x = Float32")
     (simp_all add: histogram_def invoke2_def split: sum.split prod.split)

lemma fst_histogram_unweighted:
  assumes "linspace (fst rng) (snd rng) (bins + 1) = Inr e"
  shows "fst (histogram cast J x bins rng None flow)
           = (if dtype x = Float64 \<or> dtype x = Float32
              then [\<lparr>kc_func = (if dtype x = Float64 then Hfloat64 else Hfloat32),
                     kc_x = x, kc_weights = None, kc_bins = bins,
                     kc_xmin = fst rng, kc_xmax = snd rng, kc_flow = flow\<rparr>]
              else [])"
  using assms
  by (cases "dtype x = Float64"; cases "dtype x = Float32")
     (simp_all add: histogram_def invoke1_def split: sum.split prod.split)

lemma snd_histogram_unweighted:
  assumes "linspace (fst rng) (snd rng) (bins + 1) = Inr e"
  shows "snd (histogram cast J x bins rng None flow)
           = (if dtype x = Float64 \<or> dtype x = Float32
              then (case (if dtype x = Float64 then hfloat64 J else hfloat32 J)
                           x bins (fst rng) (snd rng) flow of
                      Inl er \<Rightarrow> Inl er
                    | Inr r \<Rightarrow> Inr (r, None, e))
              else Inl (TypeError ''dtype of input must be float32 or float64''))"
  using assms
  by (cases "dtype x = Float64"; cases "dtype x = Float32")
     (simp_all add: histogram_def invoke1_def split: sum.split prod.split)

lemma fst_mwv_histogram:
  assumes "linspace (fst rng) (snd rng) (bins + 1) = Inr e"
  shows "fst (mwv_histogram cast J x w bins rng flow)
           = (if (\<exists>n. shape0 x = Inr n \<and> shape0 w = Inr n)
                 \<and> (dtype w = Float64 \<or> dtype w = Float32)
              then [\<lparr>kc_func = (if dtype w = Float64 then Hfloat64_multiweights
                                else Hfloat32_multiweights),
                     kc_x = astype cast x (dtype w), kc_weights = Some w, kc_bins = bins,
                     kc_xmin = fst rng, kc_xmax = snd rng, kc_flow = flow\<rparr>]
              else [])"
  using assms
  by (cases "shape0 x"; cases "shape0 w"; cases "dtype w = Float64"; cases "dtype w = Float32")
     (simp_all add: mwv_histogram_def invoke2_def split: sum.split prod.split)

lemma snd_mwv_histogram:
  assumes "linspace (fst rng) (snd rng) (bins + 1) = Inr e"
  shows "snd (mwv_histogram cast J x w bins rng flow)
           = (case shape0 x of
                Inl er \<Rightarrow> Inl er
              | Inr n \<Rightarrow>
                 (case shape0 w of
                    Inl er \<Rightarrow> Inl er
                  | Inr m \<Rightarrow>
                     if n \<noteq> m then Inl (AssertionError ''weights shape is not compatible with x'')
                     else if dtype w = Float64 \<or> dtype w = Float32
                     then (case (if dtype w = Float64 then hfloat64_multiweights J
                                 else hfloat32_multiweights J)
                                  (astype cast x (dtype w)) w bins (fst rng) (snd rng) flow of
                             Inl er \<Rightarrow> Inl er
                           | Inr r \<Rightarrow> Inr (fst r, snd r, e))
                     else Inl (TypeError ''dtype of input must be float32 or float64'')))"
  using assms
  by (cases "shape0 x"; cases "shape0 w"; cases "dtype w = Float64"; cases "dtype w = Float32")
     (simp_all add: mwv_histogram_def invoke2_def split: sum.split prod.split)

lemma histogram_edges:
  assumes "snd (histogram cast J x bins rng weights flow) = Inr (res, err, edges)"
  shows "linspace (fst rng) (snd rng) (bins + 1) = Inr edges"
  using assms
  by (auto simp: histogram_def invoke1_def invoke2_def split: sum.splits option.splits if_splits prod.splits)

lemma mwv_histogram_edges:
  assumes "snd (mwv_histogram cast J x w bins rng flow) = Inr (res, err, edges)"
  shows "linspace (fst rng) (snd rng) (bins + 1) = Inr edges"
  using assms
  by (auto simp: mwv_histogram_def invoke2_def split: sum.splits option.splits if_splits prod.splits)

subsection \<open>Example calls\<close>

text \<open>
  The example calls below run the routines of \<open>jits_spec\<close> and convert with
  \<open>exact_cast\<close>.
\<close>

lemmas eval_defs = histogram_def mwv_histogram_def linspace_def invoke1_def invoke2_def
  shape0_def astype_def exact_cast_def jits_spec_def spec_unweighted_def spec_weighted_def
  spec_multiweights_def matrix_rows_def bin_counts_def bin_weighted_def bin_multiweighted_def
  count_step_def weighted_step_def multi_step_def add_row_def add_row_sq_def resolve_bin_def
  bin_idx_def bin_width_def Let_def

lemma example_weighted:
  "histogram exact_cast jits_spec ex_x 2 (0, 4) (Some ex_w) False
   = ([\<lparr>kc_func = Hfloat64_weighted, kc_x = ex_x,
        kc_weights = Some \<lparr>shape = [4], dtype = Float64, data = [2, 3, 5, 1]\<rparr>,
        kc_bins = 2, kc_xmin = 0, kc_xmax = 4, kc_flow = False\<rparr>],
      Inr (\<lparr>shape = [2], dtype = Float64, data = [5, 6]\<rparr>,
           Some \<lparr>shape = [2], dtype = Float64, data = [sqrt 13, sqrt 26]\<rparr>,
           ex_edges))"
  by (simp add: eval_defs numeral_2_eq_2 numeral_3_eq_3)

lemma example_unweighted:
  "histogram exact_cast jits_spec ex_x 2 (0, 4) None False
   = ([\<lparr>kc_func = Hfloat64, kc_x = ex_x, kc_weights = None,
        kc_bins = 2, kc_xmin = 0, kc_xmax = 4, kc_flow = False\<rparr>],
      Inr (\<lparr>shape = [2], dtype = Float64, data = [2, 2]\<rparr>, None, ex_edges))"
  by (simp add: eval_defs numeral_2_eq_2 numeral_3_eq_3)

lemma example_unweighted32:
  "histogram exact_cast jits_spec ex_x32 2 (0, 4) None False
   = ([\<lparr>kc_func = Hfloat32, kc_x = ex_x32, kc_weights = None,
        kc_bins = 2, kc_xmin = 0, kc_xmax = 4, kc_flow = False\<rparr>],
      Inr (\<lparr>shape = [2], dtype = Float32, data = [2, 2]\<rparr>, None, ex_edges))"
  by (simp add: eval_defs numeral_2_eq_2 numeral_3_eq_3)

lemma example_multiweight:
  "mwv_histogram exact_cast jits_spec ex_x ex_wm 2 (0, 4) False
   = ([\<lparr>kc_func = Hfloat32_multiweights,
        kc_x = \<lparr>shape = [4], dtype = Float32, data = [1, 1, 3, 3]\<rparr>,
        kc_weights = Some ex_wm, kc_bins = 2, kc_xmin = 0, kc_xmax = 4, kc_flow = False\<rparr>],
      Inr (\<lparr>shape = [2, 2], dtype = Float32, data = [5, 30, 6, 40]\<rparr>,
           \<lparr>shape = [2, 2], dtype = Float32, data = [sqrt 13, sqrt 500, sqrt 26, sqrt 1000]\<rparr>,
           ex_edges))"
  by (simp add: eval_defs numeral_2_eq_2 numeral_3_eq_3 eval_nat_numeral)

subsection \<open>The error output\<close>

text \<open>
  Claim C1. Whenever \<open>histogram\<close> returns a triple, its second element is \<open>None\<close> exactly
  when no weights were supplied; when weights were supplied it is the error array that the
  selected weighted routine returned. Whenever \<open>mwv_histogram\<close> returns, its second element
  is the error array that the selected multi-weight routine returned.
\<close>

theorem error_present_iff_weights:
  "(snd (histogram cast J x bins rng weights flow) = Inr (res, err, edges) \<longrightarrow>
      (err = None \<longleftrightarrow> weights = None)
      \<and> (\<forall>w. weights = Some w \<longrightarrow>
            (\<exists>e. err = Some e
               \<and> (if dtype x = Float64 then hfloat64_weighted J else hfloat32_weighted J)
                    x (astype cast w (dtype x)) bins (fst rng) (snd rng) flow = Inr (res, e))))
   \<and> (snd (mwv_histogram cast J x w' bins rng flow) = Inr (res', err', edges') \<longrightarrow>
        (if dtype w' = Float64 then hfloat64_multiweights J else hfloat32_multiweights J)
          (astype cast x (dtype w')) w' bins (fst rng) (snd rng) flow = Inr (res', err'))"
proof (cases "bins + 1 < 0")
  case True
  then show ?thesis by (simp add: histogram_no_edges mwv_histogram_no_edges)
next
  case False
  then obtain e where e: "linspace (fst rng) (snd rng) (bins + 1) = Inr e"
    using edges_exist by blast
  have H: "snd (histogram cast J x bins rng weights flow) = Inr (res, err, edges) \<longrightarrow>
      (err = None \<longleftrightarrow> weights = None)
      \<and> (\<forall>w. weights = Some w \<longrightarrow>
            (\<exists>e. err = Some e
               \<and> (if dtype x = Float64 then hfloat64_weighted J else hfloat32_weighted J)
                    x (astype cast w (dtype x)) bins (fst rng) (snd rng) flow = Inr (res, e)))"
  proof (cases weights)
    case None
    then show ?thesis
      by (auto simp: snd_histogram_unweighted [OF e] split: sum.splits if_splits)
  next
    case (Some w)
    then show ?thesis
      by (auto simp: snd_histogram_weighted [OF e] split: sum.splits if_splits)
  qed
  have M: "snd (mwv_histogram cast J x w' bins rng flow) = Inr (res', err', edges') \<longrightarrow>
        (if dtype w' = Float64 then hfloat64_multiweights J else hfloat32_multiweights J)
          (astype cast x (dtype w')) w' bins (fst rng) (snd rng) flow = Inr (res', err')"
    by (auto simp: snd_mwv_histogram [OF e] split: sum.splits if_splits)
  from H M show ?thesis by blast
qed

theorem error_present_iff_weights_witness:
  "snd (histogram exact_cast jits_spec ex_x 2 (0, 4) (Some ex_w) False)
     = Inr (\<lparr>shape = [2], dtype = Float64, data = [5, 6]\<rparr>,
            Some \<lparr>shape = [2], dtype = Float64, data = [sqrt 13, sqrt 26]\<rparr>, ex_edges)
   \<and> hfloat64_weighted jits_spec ex_x (astype exact_cast ex_w Float64) 2 0 4 False
     = Inr (\<lparr>shape = [2], dtype = Float64, data = [5, 6]\<rparr>,
            \<lparr>shape = [2], dtype = Float64, data = [sqrt 13, sqrt 26]\<rparr>)
   \<and> snd (histogram exact_cast jits_spec ex_x 2 (0, 4) None False)
     = Inr (\<lparr>shape = [2], dtype = Float64, data = [2, 2]\<rparr>, None, ex_edges)
   \<and> snd (mwv_histogram exact_cast jits_spec ex_x ex_wm 2 (0, 4) False)
     = Inr (\<lparr>shape = [2, 2], dtype = Float32, data = [5, 30, 6, 40]\<rparr>,
            \<lparr>shape = [2, 2], dtype = Float32, data = [sqrt 13, sqrt 500, sqrt 26, sqrt 1000]\<rparr>,
            ex_edges)
   \<and> hfloat32_multiweights jits_spec (astype exact_cast ex_x Float32) ex_wm 2 0 4 False
     = Inr (\<lparr>shape = [2, 2], dtype = Float32, data = [5, 30, 6, 40]\<rparr>,
            \<lparr>shape = [2, 2], dtype = Float32, data = [sqrt 13, sqrt 500, sqrt 26, sqrt 1000]\<rparr>)"
  using error_present_iff_weights [where cast = exact_cast and J = jits_spec and x = ex_x
      and bins = 2 and rng = "(0, 4)" and weights = "Some ex_w" and flow = False
      and res = "\<lparr>shape = [2], dtype = Float64, data = [5, 6]\<rparr>"
      and err = "Some \<lparr>shape = [2], dtype = Float64, data = [sqrt 13, sqrt 26]\<rparr>"
      and edges = ex_edges and w' = ex_wm
      and res' = "\<lparr>shape = [2, 2], dtype = Float32, data = [5, 30, 6, 40]\<rparr>"
      and err' = "\<lparr>shape = [2, 2], dtype = Float32,
                    data = [sqrt 13, sqrt 500, sqrt 26, sqrt 1000]\<rparr>"
      and edges' = ex_edges]
  by (simp add: example_weighted example_unweighted example_multiweight)

subsection \<open>Casting before the call\<close>

text \<open>
  Claim C2. Every routine call made by a weighted \<open>histogram\<close> call receives \<open>x\<close>
  unchanged and \<open>weights\<close> converted to the dtype of \<open>x\<close>; every routine call made by
  \<open>mwv_histogram\<close> receives \<open>weights\<close> unchanged and \<open>x\<close> converted to the dtype of
  \<open>weights\<close>. Such a call is made whenever the edges can be built, the shapes agree and
  the governing dtype is float64 or float32.
\<close>

theorem casts_before_kernel:
  "(\<forall>c \<in> set (fst (histogram cast J x bins rng (Some w) flow)).
      kc_x c = x \<and> kc_weights c = Some (astype cast w (dtype x))
      \<and> dtype (astype cast w (dtype x)) = dtype x)
   \<and> (0 \<le> bins + 1 \<and> shape x = shape w \<and> (dtype x = Float64 \<or> dtype x = Float32) \<longrightarrow>
        fst (histogram cast J x bins rng (Some w) flow) \<noteq> [])
   \<and> (\<forall>c \<in> set (fst (mwv_histogram cast J x w bins rng flow)).
      kc_x c = astype cast x (dtype w) \<and> kc_weights c = Some w
      \<and> dtype (astype cast x (dtype w)) = dtype w)
   \<and> (0 \<le> bins + 1 \<and> shape0 x = Inr n \<and> shape0 w = Inr n
        \<and> (dtype w = Float64 \<or> dtype w = Float32) \<longrightarrow>
        fst (mwv_histogram cast J x w bins rng flow) \<noteq> [])"
proof (cases "bins + 1 < 0")
  case True
  then show ?thesis by (simp add: histogram_no_edges mwv_histogram_no_edges)
next
  case False
  then obtain e where e: "linspace (fst rng) (snd rng) (bins + 1) = Inr e"
    using edges_exist by blast
  show ?thesis
    by (simp add: fst_histogram_weighted [OF e] fst_mwv_histogram [OF e])
qed

theorem casts_before_kernel_witness:
  "0 \<le> (2::int) + 1 \<and> shape ex_x = shape ex_w \<and> dtype ex_x = Float64 \<and> dtype ex_w = Float32
   \<and> fst (histogram exact_cast jits_spec ex_x 2 (0, 4) (Some ex_w) False)
     = [\<lparr>kc_func = Hfloat64_weighted, kc_x = ex_x,
         kc_weights = Some \<lparr>shape = [4], dtype = Float64, data = [2, 3, 5, 1]\<rparr>,
         kc_bins = 2, kc_xmin = 0, kc_xmax = 4, kc_flow = False\<rparr>]
   \<and> astype exact_cast ex_w (dtype ex_x) = \<lparr>shape = [4], dtype = Float64, data = [2, 3, 5, 1]\<rparr>
   \<and> shape0 ex_x = Inr 4 \<and> shape0 ex_wm = Inr 4 \<and> dtype ex_wm = Float32
   \<and> fst (mwv_histogram exact_cast jits_spec ex_x ex_wm 2 (0, 4) False)
     = [\<lparr>kc_func = Hfloat32_multiweights, kc_x = ex_x32,
         kc_weights = Some ex_wm, kc_bins = 2, kc_xmin = 0, kc_xmax = 4, kc_flow = False\<rparr>]
   \<and> astype exact_cast ex_x (dtype ex_wm) = ex_x32"
  using casts_before_kernel [where cast = exact_cast and J = jits_spec and x = ex_x
      and bins = 2 and rng = "(0, 4)" and w = ex_w and flow = False and n = 4]
    casts_before_kernel [where cast = exact_cast and J = jits_spec and x = ex_x
      and bins = 2 and rng = "(0, 4)" and w = ex_wm and flow = False and n = 4]
  by (simp add: example_weighted example_multiweight shape0_def astype_def exact_cast_def)

subsection \<open>Selection of the routine by dtype\<close>

text \<open>
  Claim C3, as stated, fails: a call whose governing dtype is unsupported and whose shapes
  disagree ends with the assertion error of the shape check, which runs first, and not with
  a type error. Here \<open>x\<close> is an int64 array of four samples with three weights, and the
  weight matrix is an int64 matrix of three rows for four samples.
\<close>

theorem dtype_dispatch_counterexample:
  "dtype ex_x_int \<noteq> Float64 \<and> dtype ex_x_int \<noteq> Float32
   \<and> histogram exact_cast jits_spec ex_x_int 2 (0, 4) (Some ex_w_short) False
     = ([], Inl (AssertionError ''x and weights must have identical shape''))
   \<and> dtype ex_wm_int_short \<noteq> Float64 \<and> dtype ex_wm_int_short \<noteq> Float32
   \<and> mwv_histogram exact_cast jits_spec ex_x ex_wm_int_short 2 (0, 4) False
     = ([], Inl (AssertionError ''weights shape is not compatible with x''))"
  by (simp add: eval_defs)

text \<open>
  Claim C3, amended. For a call that passes the checks made first (the edge array can be
  built, and for weighted and multi-weight calls the shape assertion holds): when the
  governing dtype (of \<open>x\<close> for \<open>histogram\<close>, of \<open>weights\<close> for \<open>mwv_histogram\<close>) is neither
  float64 nor float32 the call ends with the type error and no routine is invoked; for
  float32 the 32-bit routine is the one invoked and for float64 the 64-bit routine. In every
  case, a call with an unsupported governing dtype fails without invoking any routine.
\<close>

theorem dtype_dispatch_after_checks:
  "(0 \<le> bins + 1 \<and> (\<forall>v. weights = Some v \<longrightarrow> shape x = shape v) \<longrightarrow>
      (dtype x \<noteq> Float64 \<and> dtype x \<noteq> Float32 \<longrightarrow>
         histogram cast J x bins rng weights flow
           = ([], Inl (TypeError ''dtype of input must be float32 or float64'')))
      \<and> (dtype x = Float32 \<longrightarrow>
           map kc_func (fst (histogram cast J x bins rng weights flow))
             = [if weights = None then Hfloat32 else Hfloat32_weighted])
      \<and> (dtype x = Float64 \<longrightarrow>
           map kc_func (fst (histogram cast J x bins rng weights flow))
             = [if weights = None then Hfloat64 else Hfloat64_weighted]))
   \<and> (0 \<le> bins + 1 \<and> shape0 x = Inr n \<and> shape0 w = Inr n \<longrightarrow>
      (dtype w \<noteq> Float64 \<and> dtype w \<noteq> Float32 \<longrightarrow>
         mwv_histogram cast J x w bins rng flow
           = ([], Inl (TypeError ''dtype of input must be float32 or float64'')))
      \<and> (dtype w = Float32 \<longrightarrow>
           map kc_func (fst (mwv_histogram cast J x w bins rng flow)) = [Hfloat32_multiweights])
      \<and> (dtype w = Float64 \<longrightarrow>
           map kc_func (fst (mwv_histogram cast J x w bins rng flow)) = [Hfloat64_multiweights]))
   \<and> (dtype x \<noteq> Float64 \<and> dtype x \<noteq> Float32 \<longrightarrow>
        fst (histogram cast J x bins rng weights flow) = []
        \<and> isl (snd (histogram cast J x bins rng weights flow)))
   \<and> (dtype w \<noteq> Float64 \<and> dtype w \<noteq> Float32 \<longrightarrow>
        fst (mwv_histogram cast J x w bins rng flow) = []
        \<and> isl (snd (mwv_histogram cast J x w bins rng flow)))"
proof (cases "bins + 1 < 0")
  case True
  then show ?thesis by (simp add: histogram_no_edges mwv_histogram_no_edges)
next
  case False
  then obtain e where e: "linspace (fst rng) (snd rng) (bins + 1) = Inr e"
    using edges_exist by blast
  have M: "dtype w \<noteq> Float64 \<and> dtype w \<noteq> Float32 \<longrightarrow> isl (snd (mwv_histogram cast J x w bins rng flow))"
    by (simp add: snd_mwv_histogram [OF e] split: sum.split)
  show ?thesis
  proof (cases weights)
    case None
    then show ?thesis
      using M
      by (simp add: fst_histogram_unweighted [OF e] snd_histogram_unweighted [OF e]
          fst_mwv_histogram [OF e] snd_mwv_histogram [OF e] prod_eq_iff)
  next
    case (Some v)
    then show ?thesis
      using M
      by (simp add: fst_histogram_weighted [OF e] snd_histogram_weighted [OF e]
          fst_mwv_histogram [OF e] snd_mwv_histogram [OF e] prod_eq_iff)
  qed
qed

theorem dtype_dispatch_after_checks_witness:
  "0 \<le> (2::int) + 1 \<and> shape ex_x_int = shape ex_w
   \<and> dtype ex_x_int \<noteq> Float64 \<and> dtype ex_x_int \<noteq> Float32
   \<and> histogram exact_cast jits_spec ex_x_int 2 (0, 4) (Some ex_w) False
     = ([], Inl (TypeError ''dtype of input must be float32 or float64''))
   \<and> histogram exact_cast jits_spec ex_x_int 2 (0, 4) None False
     = ([], Inl (TypeError ''dtype of input must be float32 or float64''))
   \<and> map kc_func (fst (histogram exact_cast jits_spec ex_x 2 (0, 4) (Some ex_w) False))
     = [Hfloat64_weighted]
   \<and> map kc_func (fst (histogram exact_cast jits_spec ex_x32 2 (0, 4) None False)) = [Hfloat32]
   \<and> shape0 ex_x_int = Inr 4 \<and> shape0 ex_wm_int = Inr 4
   \<and> dtype ex_wm_int \<noteq> Float64 \<and> dtype ex_wm_int \<noteq> Float32
   \<and> mwv_histogram exact_cast jits_spec ex_x_int ex_wm_int 2 (0, 4) False
     = ([], Inl (TypeError ''dtype of input must be float32 or float64''))
   \<and> shape0 ex_x = Inr 4 \<and> shape0 ex_wm = Inr 4 \<and> dtype ex_wm = Float32
   \<and> map kc_func (fst (mwv_histogram exact_cast jits_spec ex_x ex_wm 2 (0, 4) False))
     = [Hfloat32_multiweights]"
  using dtype_dispatch_after_checks [where cast = exact_cast and J = jits_spec and x = ex_x_int
      and bins = 2 and rng = "(0, 4)" and weights = "Some ex_w" and flow = False
      and w = ex_wm_int and n = 4]
    dtype_dispatch_after_checks [where cast = exact_cast and J = jits_spec and x = ex_x_int
      and bins = 2 and rng = "(0, 4)" and weights = None and flow = False
      and w = ex_wm_int and n = 4]
    dtype_dispatch_after_checks [where cast = exact_cast and J = jits_spec and x = ex_x
      and bins = 2 and rng = "(0, 4)" and weights = "Some ex_w" and flow = False
      and w = ex_wm and n = 4]
    dtype_dispatch_after_checks [where cast = exact_cast and J = jits_spec and x = ex_x32
      and bins = 2 and rng = "(0, 4)" and weights = None and flow = False
      and w = ex_wm_int and n = 4]
  by (simp add: shape0_def)

subsection \<open>The returned edges\<close>

text \<open>
  Claim C4. Whenever \<open>histogram\<close> or \<open>mwv_histogram\<close> returns for a bin count \<open>bins\<close> and
  a range \<open>(lo, hi)\<close>, the third output is the array built by \<open>np.linspace\<close>; it has
  exactly \<open>bins + 1\<close> elements, and for a positive bin count these are evenly spaced from
  \<open>lo\<close> to \<open>hi\<close>.
\<close>

theorem edges_returned:
  "(snd (histogram cast J x bins (lo, hi) weights flow) = Inr (res, err, edges) \<longrightarrow>
      linspace lo hi (bins + 1) = Inr edges
      \<and> int (length (data edges)) = bins + 1 \<and> shape edges = [length (data edges)]
      \<and> (1 \<le> bins \<longrightarrow> evenly_spaced lo hi (nat bins) (data edges)))
   \<and> (snd (mwv_histogram cast J x w bins (lo, hi) flow) = Inr (res', err', edges') \<longrightarrow>
      linspace lo hi (bins + 1) = Inr edges'
      \<and> int (length (data edges')) = bins + 1 \<and> shape edges' = [length (data edges')]
      \<and> (1 \<le> bins \<longrightarrow> evenly_spaced lo hi (nat bins) (data edges')))"
  using histogram_edges [of cast J x bins "(lo, hi)" weights flow res err edges]
        mwv_histogram_edges [of cast J x w bins "(lo, hi)" flow res' err' edges']
        edges_of_linspace [of lo hi bins edges] edges_of_linspace [of lo hi bins edges']
  by simp

theorem edges_returned_witness:
  "snd (histogram exact_cast jits_spec ex_x 2 (0, 4) (Some ex_w) False)
     = Inr (\<lparr>shape = [2], dtype = Float64, data = [5, 6]\<rparr>,
            Some \<lparr>shape = [2], dtype = Float64, data = [sqrt 13, sqrt 26]\<rparr>, ex_edges)
   \<and> snd (mwv_histogram exact_cast jits_spec ex_x ex_wm 2 (0, 4) False)
     = Inr (\<lparr>shape = [2, 2], dtype = Float32, data = [5, 30, 6, 40]\<rparr>,
            \<lparr>shape = [2, 2], dtype = Float32, data = [sqrt 13, sqrt 500, sqrt 26, sqrt 1000]\<rparr>,
            ex_edges)
   \<and> (1::int) \<le> 2
   \<and> int (length (data ex_edges)) = 2 + 1
   \<and> evenly_spaced 0 4 (nat 2) (data ex_edges)
   \<and> data ex_edges = [0, 2, 4]"
  using edges_returned [where cast = exact_cast and J = jits_spec and x = ex_x
      and bins = 2 and lo = 0 and hi = 4 and weights = "Some ex_w" and flow = False
      and res = "\<lparr>shape = [2], dtype = Float64, data = [5, 6]\<rparr>"
      and err = "Some \<lparr>shape = [2], dtype = Float64, data = [sqrt 13, sqrt 26]\<rparr>"
      and edges = ex_edges and w = ex_wm
      and res' = "\<lparr>shape = [2, 2], dtype = Float32, data = [5, 30, 6, 40]\<rparr>"
      and err' = "\<lparr>shape = [2, 2], dtype = Float32,
                    data = [sqrt 13, sqrt 500, sqrt 26, sqrt 1000]\<rparr>"
      and edges' = ex_edges]
  by (simp add: example_weighted example_multiweight)

subsection \<open>Shape mismatch\<close>

text \<open>
  Claim C5. A weighted \<open>histogram\<close> call with \<open>x\<close> and \<open>weights\<close> of different shapes, and
  an \<open>mwv_histogram\<close> call whose outer lengths differ, fail without invoking any routine,
  with the assertion error whenever the edge array could be built. Every routine call that
  the two functions make has samples and weights of equal shape (\<open>histogram\<close>) or of equal
  outer length (\<open>mwv_histogram\<close>).
\<close>

theorem shape_mismatch_fails_before_kernel:
  "(shape x \<noteq> shape w \<longrightarrow>
      fst (histogram cast J x bins rng (Some w) flow) = []
      \<and> isl (snd (histogram cast J x bins rng (Some w) flow))
      \<and> (0 \<le> bins + 1 \<longrightarrow> snd (histogram cast J x bins rng (Some w) flow)
            = Inl (AssertionError ''x and weights must have identical shape'')))
   \<and> (shape0 x = Inr n \<and> shape0 w = Inr m \<and> n \<noteq> m \<longrightarrow>
      fst (mwv_histogram cast J x w bins rng flow) = []
      \<and> isl (snd (mwv_histogram cast J x w bins rng flow))
      \<and> (0 \<le> bins + 1 \<longrightarrow> snd (mwv_histogram cast J x w bins rng flow)
            = Inl (AssertionError ''weights shape is not compatible with x'')))
   \<and> (\<forall>c \<in> set (fst (histogram cast J x bins rng weights flow)).
        \<forall>v. kc_weights c = Some v \<longrightarrow> shape (kc_x c) = shape v)
   \<and> (\<forall>c \<in> set (fst (mwv_histogram cast J x w bins rng flow)).
        \<forall>v. kc_weights c = Some v \<longrightarrow> (\<exists>k. shape0 (kc_x c) = Inr k \<and> shape0 v = Inr k))"
proof (cases "bins + 1 < 0")
  case True
  then show ?thesis by (simp add: histogram_no_edges mwv_histogram_no_edges)
next
  case False
  then obtain e where e: "linspace (fst rng) (snd rng) (bins + 1) = Inr e"
    using edges_exist by blast
  have sh: "shape0 (astype cast x d) = shape0 x" for d
    by (simp add: shape0_def)
  have K: "\<forall>c \<in> set (fst (histogram cast J x bins rng weights flow)).
        \<forall>v. kc_weights c = Some v \<longrightarrow> shape (kc_x c) = shape v"
    by (cases weights) (simp_all add: fst_histogram_weighted [OF e] fst_histogram_unweighted [OF e])
  show ?thesis
    using K
    by (simp add: fst_histogram_weighted [OF e] snd_histogram_weighted [OF e]
        fst_mwv_histogram [OF e] snd_mwv_histogram [OF e] sh)
qed

theorem shape_mismatch_fails_before_kernel_witness:
  "shape ex_x \<noteq> shape ex_w_short
   \<and> histogram exact_cast jits_spec ex_x 2 (0, 4) (Some ex_w_short) False
     = ([], Inl (AssertionError ''x and weights must have identical shape''))
   \<and> shape0 ex_x = Inr 4 \<and> shape0 ex_wm_short = Inr 3 \<and> (4::nat) \<noteq> 3
   \<and> mwv_histogram exact_cast jits_spec ex_x ex_wm_short 2 (0, 4) False
     = ([], Inl (AssertionError ''weights shape is not compatible with x''))
   \<and> fst (histogram exact_cast jits_spec ex_x 2 (0, 4) (Some ex_w) False)
     = [\<lparr>kc_func = Hfloat64_weighted, kc_x = ex_x,
         kc_weights = Some \<lparr>shape = [4], dtype = Float64, data = [2, 3, 5, 1]\<rparr>,
         kc_bins = 2, kc_xmin = 0, kc_xmax = 4, kc_flow = False\<rparr>]
   \<and> fst (mwv_histogram exact_cast jits_spec ex_x ex_wm 2 (0, 4) False)
     = [\<lparr>kc_func = Hfloat32_multiweights, kc_x = ex_x32,
         kc_weights = Some ex_wm, kc_bins = 2, kc_xmin = 0, kc_xmax = 4, kc_flow = False\<rparr>]"
  using shape_mismatch_fails_before_kernel [where cast = exact_cast and J = jits_spec
      and x = ex_x and bins = 2 and rng = "(0, 4)" and w = ex_w_short and flow = False
      and weights = "Some ex_w" and n = 4 and m = 4]
    shape_mismatch_fails_before_kernel [where cast = exact_cast and J = jits_spec
      and x = ex_x and bins = 2 and rng = "(0, 4)" and w = ex_wm_short and flow = False
      and weights = "Some ex_w" and n = 4 and m = 3]
    shape_mismatch_fails_before_kernel [where cast = exact_cast and J = jits_spec
      and x = ex_x and bins = 2 and rng = "(0, 4)" and w = ex_wm and flow = False
      and weights = "Some ex_w" and n = 4 and m = 4]
  by (simp add: example_weighted example_multiweight shape0_def prod_eq_iff)

text \<open>
  Claim C9. The check of \<open>histogram\<close> compares the whole shapes: for any bin count for
  which the edges can be built (every bin count from -1 on, so every positive one), a
  weighted call with \<open>x.shape \<noteq> weights.shape\<close> ends with the assertion error and invokes
  no routine, also when both arrays hold the same number of elements, as samples of shape
  (4,) with weights of shape (4, 1) do.
\<close>

theorem weights_validation_compares_shapes:
  assumes "shape x \<noteq> shape w" and "0 \<le> bins + 1"
  shows "histogram cast J x bins rng (Some w) flow
           = ([], Inl (AssertionError ''x and weights must have identical shape''))"
proof -
  obtain e where e: "linspace (fst rng) (snd rng) (bins + 1) = Inr e"
    using edges_exist [of bins] assms(2) by fastforce
  have "fst (histogram cast J x bins rng (Some w) flow) = []"
    and "snd (histogram cast J x bins rng (Some w) flow)
           = Inl (AssertionError ''x and weights must have identical shape'')"
    using assms(1) by (simp_all add: fst_histogram_weighted [OF e] snd_histogram_weighted [OF e])
  then show ?thesis by (simp add: prod_eq_iff)
qed

theorem weights_validation_compares_shapes_witness:
  "shape ex_x \<noteq> shape ex_w_column \<and> length (data ex_x) = length (data ex_w_column)
   \<and> 0 \<le> (2::int) + 1
   \<and> histogram exact_cast jits_spec ex_x 2 (0, 4) (Some ex_w_column) False
     = ([], Inl (AssertionError ''x and weights must have identical shape''))"
  using weights_validation_compares_shapes [where cast = exact_cast and J = jits_spec
      and x = ex_x and bins = 2 and rng = "(0, 4)" and w = ex_w_column and flow = False]
  by simp

subsection \<open>The dtype of the samples in a multi-weight call\<close>

text \<open>
  Claim C10. \<open>mwv_histogram\<close> does not depend on the dtype of \<open>x\<close>: replacing it by any
  dtype \<open>d\<close> changes neither the routine selected nor a failure reported before the call.
  So when \<open>weights\<close> is float64 or float32 (and the outer lengths agree and the edges can be
  built) the routine for the dtype of \<open>weights\<close> is invoked on \<open>x\<close> converted to that
  dtype, whatever the dtype of \<open>x\<close>; while \<open>histogram\<close> on an \<open>x\<close> that is neither float64
  nor float32 fails without invoking a routine, with the type error when its earlier checks
  pass.
\<close>

theorem mwv_histogram_ignores_dtype_of_x:
  "map kc_func (fst (mwv_histogram cast J (x\<lparr>dtype := d\<rparr>) w bins rng flow))
     = map kc_func (fst (mwv_histogram cast J x w bins rng flow))
   \<and> (fst (mwv_histogram cast J x w bins rng flow) = [] \<longrightarrow>
        mwv_histogram cast J (x\<lparr>dtype := d\<rparr>) w bins rng flow
          = mwv_histogram cast J x w bins rng flow)
   \<and> (0 \<le> bins + 1 \<and> shape0 x = Inr n \<and> shape0 w = Inr n
        \<and> (dtype w = Float64 \<or> dtype w = Float32) \<longrightarrow>
        fst (mwv_histogram cast J x w bins rng flow)
          = [\<lparr>kc_func = (if dtype w = Float64 then Hfloat64_multiweights
                          else Hfloat32_multiweights),
               kc_x = astype cast x (dtype w), kc_weights = Some w, kc_bins = bins,
               kc_xmin = fst rng, kc_xmax = snd rng, kc_flow = flow\<rparr>])
   \<and> (dtype x \<noteq> Float64 \<and> dtype x \<noteq> Float32 \<longrightarrow>
        fst (histogram cast J x bins rng weights flow) = []
        \<and> isl (snd (histogram cast J x bins rng weights flow))
        \<and> (0 \<le> bins + 1 \<and> (\<forall>v. weights = Some v \<longrightarrow> shape x = shape v) \<longrightarrow>
             snd (histogram cast J x bins rng weights flow)
               = Inl (TypeError ''dtype of input must be float32 or float64'')))"
proof (cases "bins + 1 < 0")
  case True
  then show ?thesis by (simp add: histogram_no_edges mwv_histogram_no_edges)
next
  case False
  then obtain e where e: "linspace (fst rng) (snd rng) (bins + 1) = Inr e"
    using edges_exist by blast
  have sh: "shape0 (x\<lparr>dtype := d\<rparr>) = shape0 x"
    by (simp add: shape0_def)
  have I1: "map kc_func (fst (mwv_histogram cast J (x\<lparr>dtype := d\<rparr>) w bins rng flow))
     = map kc_func (fst (mwv_histogram cast J x w bins rng flow))"
    by (simp add: fst_mwv_histogram [OF e] sh)
  have I2: "fst (mwv_histogram cast J x w bins rng flow) = [] \<longrightarrow>
        mwv_histogram cast J (x\<lparr>dtype := d\<rparr>) w bins rng flow
          = mwv_histogram cast J x w bins rng flow"
    by (simp add: fst_mwv_histogram [OF e] snd_mwv_histogram [OF e] sh prod_eq_iff
        split: sum.split)
  have H: "dtype x \<noteq> Float64 \<and> dtype x \<noteq> Float32 \<longrightarrow>
        fst (histogram cast J x bins rng weights flow) = []
        \<and> isl (snd (histogram cast J x bins rng weights flow))
        \<and> (0 \<le> bins + 1 \<and> (\<forall>v. weights = Some v \<longrightarrow> shape x = shape v) \<longrightarrow>
             snd (histogram cast J x bins rng weights flow)
               = Inl (TypeError ''dtype of input must be float32 or float64''))"
    by (cases weights)
       (simp_all add: fst_histogram_unweighted [OF e] snd_histogram_unweighted [OF e]
          fst_histogram_weighted [OF e] snd_histogram_weighted [OF e])
  show ?thesis
    using I1 I2 H by (simp add: fst_mwv_histogram [OF e])
qed

theorem mwv_histogram_ignores_dtype_of_x_witness:
  "0 \<le> (2::int) + 1 \<and> shape0 ex_x_int = Inr 4 \<and> shape0 ex_wm = Inr 4 \<and> dtype ex_wm = Float32
   \<and> dtype ex_x_int \<noteq> Float64 \<and> dtype ex_x_int \<noteq> Float32
   \<and> fst (mwv_histogram exact_cast jits_spec ex_x_int ex_wm 2 (0, 4) False)
     = [\<lparr>kc_func = Hfloat32_multiweights, kc_x = ex_x32,
         kc_weights = Some ex_wm, kc_bins = 2, kc_xmin = 0, kc_xmax = 4, kc_flow = False\<rparr>]
   \<and> map kc_func (fst (mwv_histogram exact_cast jits_spec (ex_x_int\<lparr>dtype := Float64\<rparr>) ex_wm
        2 (0, 4) False)) = [Hfloat32_multiweights]
   \<and> histogram exact_cast jits_spec ex_x_int 2 (0, 4) None False
     = ([], Inl (TypeError ''dtype of input must be float32 or float64''))"
  using mwv_histogram_ignores_dtype_of_x [where cast = exact_cast and J = jits_spec
      and x = ex_x_int and d = Float64 and bins = 2 and rng = "(0, 4)" and w = ex_wm
      and flow = False and weights = None and n = 4]
  by (simp add: shape0_def astype_def exact_cast_def prod_eq_iff)

end
